theory Spec2Isabelle
  imports Complex_Main "HOL-Library.Sublist" "HOL-Library.Multiset" "HOL-Library.AList"
    "HOL-Library.Product_Lexorder"
begin

section \<open>AQI categorisation and alerts (inference/predictor.py)\<close>

text \<open>
  The dictionary returned by \<open>categorize_aqi\<close> always has the same five keys, so
  it is a record. Python strings are sequences of code points; here a string is the list
  of the bytes of its UTF-8 encoding, so the two emoji of the source are written as their
  bytes. The argument is a real number: the claims are about every real value, and the
  not-a-number and infinite floats are left out of this part.
\<close>

record aqi_info =
  category :: string
  level :: nat
  color :: string
  message :: string
  is_hazardous :: bool

definition categorize_aqi :: "real \<Rightarrow> aqi_info" where
  "categorize_aqi aqi_value =
    (if aqi_value \<le> 50 then
       \<lparr>category = ''Good'', level = 1, color = ''#00e400'',
        message = ''Air quality is satisfactory, and air pollution poses little or no risk.'',
        is_hazardous = False\<rparr>
     else if aqi_value \<le> 100 then
       \<lparr>category = ''Moderate'', level = 2, color = ''#ffff00'',
        message = ''Air quality is acceptable. However, there may be a risk for some people.'',
        is_hazardous = False\<rparr>
     else if aqi_value \<le> 150 then
       \<lparr>category = ''Unhealthy for Sensitive Groups'', level = 3, color = ''#ff7e00'',
        message = ''Members of sensitive groups may experience health effects.'',
        is_hazardous = False\<rparr>
     else if aqi_value \<le> 200 then
       \<lparr>category = ''Unhealthy'', level = 4, color = ''#ff0000'',
        message = ''Some members of the general public may experience health effects.'',
        is_hazardous = True\<rparr>
     else if aqi_value \<le> 300 then
       \<lparr>category = ''Very Unhealthy'', level = 5, color = ''#8f3f97'',
        message = ''Health alert: The risk of health effects is increased for everyone.'',
        is_hazardous = True\<rparr>
     else
       \<lparr>category = ''Hazardous'', level = 6, color = ''#7e0023'',
        message = [CHR 0xE2, CHR 0x9A, CHR 0xA0, CHR 0xEF, CHR 0xB8, CHR 0x8F] @
          '' HEALTH WARNING: Everyone may experience serious health effects.'',
        is_hazardous = True\<rparr>)"

text \<open>
  The format \<open>{aqi_value:.0f}\<close>: the value rounded to an integer, ties to the even
  neighbour, printed in decimal; a negative value keeps its sign even when it rounds to
  zero.
\<close>

definition round_half_even :: "real \<Rightarrow> int" where
  "round_half_even x =
    (let f = \<lfloor>x\<rfloor>; d = x - of_int f
     in if d < 1 / 2 then f else if 1 / 2 < d then f + 1 else if even f then f else f + 1)"

definition digit_char :: "nat \<Rightarrow> char" where
  "digit_char d = ''0123456789'' ! d"

fun show_nat :: "nat \<Rightarrow> string" where
  "show_nat n = (if n < 10 then [digit_char n] else show_nat (n div 10) @ [digit_char (n mod 10)])"

definition format_0f :: "real \<Rightarrow> string" where
  "format_0f x =
    (let n = round_half_even x
     in if x < 0 then ''-'' @ show_nat (nat (- n)) else show_nat (nat n))"

definition generate_aqi_alert :: "real \<Rightarrow> string option" where
  "generate_aqi_alert aqi_value =
    (let info = categorize_aqi aqi_value
     in if is_hazardous info then
          Some ([CHR 0xF0, CHR 0x9F, CHR 0x9A, CHR 0xA8] @ '' ALERT: Air quality is '' @
                category info @ '' (AQI: '' @ format_0f aqi_value @ ''). '' @ message info)
        else None)"

text \<open>The six bands, as the list of their labels in the order of their severity levels.\<close>

definition band_labels :: "string list" where
  "band_labels = [''Good'', ''Moderate'', ''Unhealthy for Sensitive Groups'', ''Unhealthy'',
    ''Very Unhealthy'', ''Hazardous'']"

section \<open>Python values and dictionaries\<close>

text \<open>
  The records of the pipeline are Python dictionaries from strings to arbitrary values.
  A float is a real number, one of the two infinities or not-a-number: the finite floats
  are idealised as reals (no rounding, no signed zero, no overflow of a large integer
  converted to a float), the three special values are kept because the cleaners treat
  them specially. \<open>VOther\<close> stands for any other object: one that has no conversion to
  a number and is true in a condition (a non-empty list or dictionary).
\<close>

datatype pyfloat = Fin real | PInf | NInf | NaN

datatype pyval = VNone | VBool bool | VInt int | VFloat pyfloat | VStr string | VOther

text \<open>
  The exceptions. \<open>FetchError\<close> is whatever a network call raises. \<open>NotModelled\<close> marks
  an input on which the embedding stops although the source may go on: a timestamp that is
  not an integer.
\<close>

datatype pyerr = TypeError | ValueError | OverflowError | KeyError | FetchError | NotModelled

text \<open>
  A dictionary keeps its keys in insertion order: an association list. \<open>d[k] = v\<close> is
  \<open>AList.update k v d\<close>, which replaces the value of a key that is there and appends a
  new key at the end. A well-formed dictionary has each key once.
\<close>

type_synonym dict = "(string \<times> pyval) list"

definition wf_dict :: "dict \<Rightarrow> bool" where
  "wf_dict d = distinct (map fst d)"

text \<open>\<open>d.get(k)\<close>: the value of the key, \<open>None\<close> when the key is missing.\<close>

definition dict_get :: "dict \<Rightarrow> string \<Rightarrow> pyval" where
  "dict_get d k = (case map_of d k of None \<Rightarrow> VNone | Some v \<Rightarrow> v)"

text \<open>
  How Python reads a number out of a string is the interpreter's business, not this
  repository's: both parsers are parameters, \<open>None\<close> where the string does not parse
  (\<open>ValueError\<close>).
\<close>

record pylib =
  float_of_str :: "string \<Rightarrow> pyfloat option"
  int_of_str :: "string \<Rightarrow> int option"

fun py_float :: "pylib \<Rightarrow> pyval \<Rightarrow> pyerr + pyfloat" where
  "py_float lib VNone = Inl TypeError"
| "py_float lib (VBool b) = Inr (Fin (if b then 1 else 0))"
| "py_float lib (VInt i) = Inr (Fin (of_int i))"
| "py_float lib (VFloat f) = Inr f"
| "py_float lib (VStr s) = (case float_of_str lib s of None \<Rightarrow> Inl ValueError | Some f \<Rightarrow> Inr f)"
| "py_float lib VOther = Inl TypeError"

text \<open>\<open>int(x)\<close> truncates a float towards zero and refuses the special floats.\<close>

fun py_int :: "pylib \<Rightarrow> pyval \<Rightarrow> pyerr + int" where
  "py_int lib VNone = Inl TypeError"
| "py_int lib (VBool b) = Inr (if b then 1 else 0)"
| "py_int lib (VInt i) = Inr i"
| "py_int lib (VFloat (Fin r)) = Inr (if 0 \<le> r then \<lfloor>r\<rfloor> else \<lceil>r\<rceil>)"
| "py_int lib (VFloat NaN) = Inl ValueError"
| "py_int lib (VFloat PInf) = Inl OverflowError"
| "py_int lib (VFloat NInf) = Inl OverflowError"
| "py_int lib (VStr s) = (case int_of_str lib s of None \<Rightarrow> Inl ValueError | Some i \<Rightarrow> Inr i)"
| "py_int lib VOther = Inl TypeError"

text \<open>
  Comparison of two numbers. Every comparison with not-a-number is false. Only numbers
  are compared in the code below (a constant and the result of \<open>float\<close>), so the value
  on other operands does not matter.
\<close>

fun float_lt :: "pyfloat \<Rightarrow> pyfloat \<Rightarrow> bool" where
  "float_lt (Fin a) (Fin b) = (a < b)"
| "float_lt (Fin a) PInf = True"
| "float_lt NInf (Fin b) = True"
| "float_lt NInf PInf = True"
| "float_lt _ _ = False"

fun num_of :: "pyval \<Rightarrow> pyfloat option" where
  "num_of (VInt i) = Some (Fin (of_int i))"
| "num_of (VBool b) = Some (Fin (if b then 1 else 0))"
| "num_of (VFloat f) = Some f"
| "num_of _ = None"

definition py_lt :: "pyval \<Rightarrow> pyval \<Rightarrow> bool" where
  "py_lt a b = (case (num_of a, num_of b) of (Some x, Some y) \<Rightarrow> float_lt x y | _ \<Rightarrow> False)"

text \<open>
  \<open>min(a, b)\<close> and \<open>max(a, b)\<close> keep the first argument unless the second is
  strictly smaller (strictly greater), and return the argument itself, an \<open>int\<close> or a
  \<open>float\<close>.
\<close>

definition py_min2 :: "pyval \<Rightarrow> pyval \<Rightarrow> pyval" where
  "py_min2 a b = (if py_lt b a then b else a)"

definition py_max2 :: "pyval \<Rightarrow> pyval \<Rightarrow> pyval" where
  "py_max2 a b = (if py_lt a b then b else a)"

section \<open>Record cleaners (src/feature_engineering/cleaning.py)\<close>

definition is_nan :: "pyval \<Rightarrow> bool" where
  "is_nan x = (case x of VFloat NaN \<Rightarrow> True | _ \<Rightarrow> False)"

text \<open>
  The loop \<open>for k, v in list(out.items()): if _is_nan(v): out[k] = None\<close> runs over a
  copy of the items and updates the dictionary.
\<close>

definition nan_to_none :: "dict \<Rightarrow> dict" where
  "nan_to_none out =
    fold (\<lambda>(k, v) acc. if is_nan v then AList.update k VNone acc else acc) out out"

definition clean_weather_record :: "pylib \<Rightarrow> dict \<Rightarrow> dict" where
  "clean_weather_record lib rec =
    (let out = rec;
         h = dict_get out ''humidity'';
         out = (if h \<noteq> VNone then
                  (case py_float lib h of
                     Inr f \<Rightarrow>
                       AList.update ''humidity'' (py_max2 (VInt 0) (py_min2 (VInt 100) (VFloat f))) out
                   | Inl e \<Rightarrow> AList.update ''humidity'' VNone out)
                else out);
         vis = dict_get out ''visibility'';
         out = (if vis \<noteq> VNone then
                  (case py_float lib vis of
                     Inr f \<Rightarrow> AList.update ''visibility'' (py_max2 (VFloat (Fin 0)) (VFloat f)) out
                   | Inl e \<Rightarrow> AList.update ''visibility'' VNone out)
                else out)
     in nan_to_none out)"

definition concentration_keys :: "string list" where
  "concentration_keys = [''co'', ''no'', ''no2'', ''o3'', ''so2'', ''pm2_5'', ''pm10'', ''nh3'']"

text \<open>The body of the loop over the concentration keys.\<close>

definition clamp_concentration :: "pylib \<Rightarrow> string \<Rightarrow> dict \<Rightarrow> dict" where
  "clamp_concentration lib k out =
    (let v = dict_get out k
     in if v \<noteq> VNone then
          (case py_float lib v of
             Inr f \<Rightarrow> AList.update k (py_max2 (VFloat (Fin 0)) (VFloat f)) out
           | Inl e \<Rightarrow> AList.update k VNone out)
        else out)"

definition clean_pollutant_record :: "pylib \<Rightarrow> dict \<Rightarrow> dict" where
  "clean_pollutant_record lib rec =
    (let out = nan_to_none rec;
         out = fold (clamp_concentration lib) concentration_keys out;
         aqi = dict_get out ''aqi''
     in if aqi \<noteq> VNone then
          (case py_int lib aqi of
             Inr aqi_i \<Rightarrow>
               AList.update ''aqi'' (if 1 \<le> aqi_i \<and> aqi_i \<le> 5 then VInt aqi_i else VNone) out
           | Inl e \<Rightarrow> AList.update ''aqi'' VNone out)
        else out)"


text \<open>A library in which no string parses, for evaluating the cleaners on numbers.\<close>

definition no_parse :: pylib where
  "no_parse = \<lparr>float_of_str = (\<lambda>s. None), int_of_str = (\<lambda>s. None)\<rparr>"


section \<open>Backfill orchestrator (src/backfill/combined_backfill.py)\<close>

text \<open>
  \<open>run_combined_backfill\<close> calls code that is outside the modelled files: the two
  fetchers, the two feature computers, the sort of the table library and the writing of
  the file. They are the fields of an environment. A fetch may raise. The pollutant fetch
  is a network call, so its answer may differ from call to call for the same timestamp:
  it takes the number of the call (from 1, the counter of the source's loop) besides the
  timestamp. The feature computers are taken to return. The waiting between calls and
  the log lines are left out, except the final tally of successes and failures.
\<close>

record env =
  parsers :: pylib
  fetch_openmeteo_bulk :: "pyerr + dict list"
  fetch_pollutant_historical :: "nat \<Rightarrow> int \<Rightarrow> pyerr + dict option"
  compute_weather_features :: "dict \<Rightarrow> dict"
  compute_pollutant_features :: "dict \<Rightarrow> dict list \<Rightarrow> dict"
  sort_values :: "dict list \<Rightarrow> dict list"
  to_csv :: "dict list \<Rightarrow> pyerr + unit"

text \<open>
  \<open>rec["timestamp"]\<close>. Timestamps are integers (\<open>Dict[int, ...]\<close> in the source); a
  record without the key raises, a timestamp of another type is not modelled.
\<close>

definition rec_timestamp :: "dict \<Rightarrow> pyerr + int" where
  "rec_timestamp rec =
    (case map_of rec ''timestamp'' of
       None \<Rightarrow> Inl KeyError
     | Some (VInt t) \<Rightarrow> Inr t
     | Some _ \<Rightarrow> Inl NotModelled)"

text \<open>Truth of a value in a condition.\<close>

fun truthy :: "pyval \<Rightarrow> bool" where
  "truthy VNone = False"
| "truthy (VBool b) = b"
| "truthy (VInt i) = (i \<noteq> 0)"
| "truthy (VFloat f) = (f \<noteq> Fin 0)"
| "truthy (VStr s) = (s \<noteq> [])"
| "truthy VOther = True"

text \<open>The table \<open>weather_by_ts\<close>: a later record replaces an earlier one of the same timestamp.\<close>

fun weather_index :: "dict list \<Rightarrow> (int \<times> dict) list \<Rightarrow> pyerr + (int \<times> dict) list" where
  "weather_index [] weather_by_ts = Inr weather_by_ts"
| "weather_index (rec # rest) weather_by_ts =
     (case rec_timestamp rec of
        Inl e \<Rightarrow> Inl e
      | Inr ts \<Rightarrow> weather_index rest (AList.update ts rec weather_by_ts))"

text \<open>
  One pollutant fetch, with the three ways it fails in the loop: the call raises, it
  returns \<open>None\<close> or an empty dictionary, or the record has no true timestamp. Each of them
  adds one to \<open>failed\<close>; otherwise the record is kept.
\<close>

definition fetched_record :: "env \<Rightarrow> nat \<Rightarrow> int \<Rightarrow> dict option" where
  "fetched_record env i target_ts =
    (case fetch_pollutant_historical env i target_ts of
       Inl e \<Rightarrow> None
     | Inr None \<Rightarrow> None
     | Inr (Some raw_p) \<Rightarrow>
         if raw_p \<noteq> [] \<and> truthy (dict_get raw_p ''timestamp'') then Some raw_p else None)"

record fetch_state =
  pollutant_records :: "dict list"
  success :: nat
  failed :: nat
  calls :: "int list"

fun fetch_pollutants :: "env \<Rightarrow> nat \<Rightarrow> dict list \<Rightarrow> fetch_state \<Rightarrow> pyerr + fetch_state" where
  "fetch_pollutants env i [] st = Inr st"
| "fetch_pollutants env i (weather_rec # rest) st =
     (case rec_timestamp weather_rec of
        Inl e \<Rightarrow> Inl e
      | Inr target_ts \<Rightarrow>
          fetch_pollutants env (i + 1) rest
            (case fetched_record env i target_ts of
               Some raw_p \<Rightarrow>
                 st\<lparr>pollutant_records := pollutant_records st @ [raw_p],
                    success := success st + 1,
                    calls := calls st @ [target_ts]\<rparr>
             | None \<Rightarrow>
                 st\<lparr>failed := failed st + 1, calls := calls st @ [target_ts]\<rparr>))"

text \<open>
  \<open>min(keys, key=...)\<close>: the first of the elements with the least key, an error on an
  empty sequence.
\<close>

fun py_min_key :: "('a \<Rightarrow> int) \<Rightarrow> 'a list \<Rightarrow> pyerr + 'a" where
  "py_min_key f [] = Inl ValueError"
| "py_min_key f (x # xs) = Inr (fold (\<lambda>y best. if f y < f best then y else best) xs x)"

definition closest_ts :: "int list \<Rightarrow> int \<Rightarrow> pyerr + int" where
  "closest_ts keys p_ts = py_min_key (\<lambda>t. \<bar>t - p_ts\<bar>) keys"

text \<open>The table \<open>pollutant_by_ts\<close>, filled in the order of the fetches.\<close>

fun match_pollutants :: "int list \<Rightarrow> dict list \<Rightarrow> (int \<times> dict) list \<Rightarrow> pyerr + (int \<times> dict) list" where
  "match_pollutants keys [] pollutant_by_ts = Inr pollutant_by_ts"
| "match_pollutants keys (rec # rest) pollutant_by_ts =
     (case rec_timestamp rec of
        Inl e \<Rightarrow> Inl e
      | Inr p_ts \<Rightarrow>
          (case closest_ts keys p_ts of
             Inl e \<Rightarrow> Inl e
           | Inr closest \<Rightarrow> match_pollutants keys rest (AList.update closest rec pollutant_by_ts)))"

text \<open>The slice \<open>xs[a:b]\<close> for \<open>0 \<le> a\<close> and \<open>0 \<le> b\<close>; a slice never raises.\<close>

definition py_slice :: "'a list \<Rightarrow> nat \<Rightarrow> nat \<Rightarrow> 'a list" where
  "py_slice xs a b = drop a (take b xs)"

text \<open>
  The arguments of the call of \<open>compute_pollutant_features\<close> for the row of index \<open>i\<close> and
  timestamp \<open>ts\<close>, if the row has a pollutant record: the cleaned record and the slice of
  history. \<open>hist_index - 10\<close> is a subtraction of natural numbers, \<open>max(0, hist_index-10)\<close>.
\<close>

definition pollutant_call ::
  "env \<Rightarrow> dict list \<Rightarrow> (int \<times> dict) list \<Rightarrow> nat \<Rightarrow> int \<Rightarrow> (dict \<times> dict list) option" where
  "pollutant_call env pollutant_recs pollutant_by_ts i ts =
    (let pollutant_clean =
           (case map_of pollutant_by_ts ts of
              Some pollutant_raw \<Rightarrow>
                if pollutant_raw \<noteq> [] then clean_pollutant_record (parsers env) pollutant_raw else []
            | None \<Rightarrow> [])
     in if pollutant_clean \<noteq> [] then
          let hist_index = i;
              hist_slice =
                (if 0 < hist_index then py_slice pollutant_recs (hist_index - 10) hist_index else [])
          in Some (pollutant_clean, hist_slice)
        else None)"

text \<open>The merge of the two feature dictionaries; the pollutant keys get a prefix.\<close>

definition merge_features :: "dict \<Rightarrow> dict \<Rightarrow> dict" where
  "merge_features weather_features pollutant_features =
    fold (\<lambda>(k, v) merged. if k \<noteq> ''timestamp'' then AList.update (''pollutant_'' @ k) v merged else merged)
      pollutant_features weather_features"

definition merged_row :: "env \<Rightarrow> dict list \<Rightarrow> (int \<times> dict) list \<Rightarrow> nat \<times> int \<times> dict \<Rightarrow> dict" where
  "merged_row env pollutant_recs pollutant_by_ts item =
    (case item of (i, ts, weather_raw) \<Rightarrow>
       let weather_clean = clean_weather_record (parsers env) weather_raw;
           weather_features = compute_weather_features env weather_clean;
           pollutant_features =
             (case pollutant_call env pollutant_recs pollutant_by_ts i ts of
                Some (pollutant_clean, hist_slice) \<Rightarrow>
                  compute_pollutant_features env pollutant_clean hist_slice
              | None \<Rightarrow> [])
       in merge_features weather_features pollutant_features)"

text \<open>
  The table is the list of its rows; a row that lacks a column has a missing cell
  there, and a column exists when a row has its key. The key of a row for sorting and for
  finding duplicates is its timestamp; a missing timestamp sorts last, and two missing
  timestamps are duplicates of each other. A cell that is neither an integer nor missing
  is outside the model and is read as missing.
\<close>

definition ts_key :: "dict \<Rightarrow> bool \<times> int" where
  "ts_key row = (case map_of row ''timestamp'' of Some (VInt t) \<Rightarrow> (False, t) | _ \<Rightarrow> (True, 0))"

definition has_column :: "string \<Rightarrow> dict list \<Rightarrow> bool" where
  "has_column c rows = list_ex (\<lambda>row. c \<in> set (map fst row)) rows"

text \<open>\<open>drop_duplicates(keep="last")\<close>: a row stays when no later row has its key.\<close>

fun drop_duplicates_last :: "('r \<Rightarrow> 'k) \<Rightarrow> 'r list \<Rightarrow> 'r list" where
  "drop_duplicates_last key [] = []"
| "drop_duplicates_last key (x # xs) =
     (if key x \<in> key ` set xs then drop_duplicates_last key xs
      else x # drop_duplicates_last key xs)"

text \<open>The step of lines 148 and 149, over the sort of the table library.\<close>

definition sort_dedup :: "(dict list \<Rightarrow> dict list) \<Rightarrow> dict list \<Rightarrow> dict list" where
  "sort_dedup srt rows =
    (if has_column ''timestamp'' rows then drop_duplicates_last ts_key (srt rows) else rows)"

text \<open>
  What is known of the library's sort: its result is a rearrangement of the rows in
  ascending order of the key. Its default algorithm is not stable, so nothing is assumed
  about the order of rows with equal keys.
\<close>

definition sorts_by_timestamp :: "(dict list \<Rightarrow> dict list) \<Rightarrow> bool" where
  "sorts_by_timestamp srt =
    (\<forall>rows. sorted (map ts_key (srt rows)) \<and> mset (srt rows) = mset rows)"

text \<open>
  The result of a run: the table returned, the table written to the file (none when
  nothing was written), the timestamps of the pollutant fetches in the order they were
  issued, and the tally of the log line (success, failed).
\<close>

record outcome =
  df :: "dict list"
  csv :: "dict list option"
  fetches :: "int list"
  tally :: "(nat \<times> nat) option"

definition run_combined_backfill :: "env \<Rightarrow> pyerr + outcome" where
  "run_combined_backfill env =
    (case fetch_openmeteo_bulk env of
       Inl e \<Rightarrow> Inr \<lparr>df = [], csv = None, fetches = [], tally = None\<rparr>
     | Inr weather_records \<Rightarrow>
        (case weather_index weather_records [] of
           Inl e \<Rightarrow> Inl e
         | Inr weather_by_ts \<Rightarrow>
            (case fetch_pollutants env 1 weather_records
                    \<lparr>pollutant_records = [], success = 0, failed = 0, calls = []\<rparr> of
               Inl e \<Rightarrow> Inl e
             | Inr st \<Rightarrow>
                (case match_pollutants (map fst weather_by_ts) (pollutant_records st) [] of
                   Inl e \<Rightarrow> Inl e
                 | Inr pollutant_by_ts \<Rightarrow>
                    let combined_rows =
                          map (merged_row env (pollutant_records st) pollutant_by_ts)
                            (enumerate 0 (sort_key fst weather_by_ts));
                        table = sort_dedup (sort_values env) combined_rows
                    in Inr \<lparr>df = table,
                            csv = (case to_csv env table of Inr u \<Rightarrow> Some table | Inl e \<Rightarrow> None),
                            fetches = calls st,
                            tally = Some (success st, failed st)\<rparr>))))"


text \<open>
  For the statements: the timestamp of a record that has one, and the results of the
  pollutant fetches for a list of timestamps, the calls numbered from \<open>i\<close>.
\<close>

definition ts_of :: "dict \<Rightarrow> int" where
  "ts_of rec = (case rec_timestamp rec of Inr t \<Rightarrow> t | Inl e \<Rightarrow> 0)"

definition fetch_results :: "env \<Rightarrow> nat \<Rightarrow> int list \<Rightarrow> dict option list" where
  "fetch_results env i tss = map (\<lambda>(j, t). fetched_record env j t) (enumerate i tss)"

text \<open>
  A concrete environment for running the orchestrator on small inputs. The weather
  features are the cleaned record itself; the pollutant features report the history they
  were given: its length and the timestamp of its last record. The sort is a sort by
  insertion, and the file is always written.
\<close>

definition history_features :: "dict \<Rightarrow> dict list \<Rightarrow> dict" where
  "history_features pollutant_clean historical_data =
    [(''history_len'', VInt (int (length historical_data))),
     (''history_last_ts'',
        (if historical_data = [] then VNone else dict_get (last historical_data) ''timestamp''))]"

definition demo_env :: "(pyerr + dict list) \<Rightarrow> (nat \<Rightarrow> int \<Rightarrow> pyerr + dict option) \<Rightarrow> env" where
  "demo_env weather pollutant =
    \<lparr>parsers = no_parse,
     fetch_openmeteo_bulk = weather,
     fetch_pollutant_historical = pollutant,
     compute_weather_features = (\<lambda>weather_clean. weather_clean),
     compute_pollutant_features = history_features,
     sort_values = sort_key ts_key,
     to_csv = (\<lambda>table. Inr ())\<rparr>"

text \<open>A weather record and a pollutant record of a day, with one reading each.\<close>

definition weather_day :: "int \<Rightarrow> int \<Rightarrow> dict" where
  "weather_day t temp = [(''timestamp'', VInt t), (''temp'', VInt temp)]"

definition pollutant_day :: "int \<Rightarrow> dict" where
  "pollutant_day t = [(''timestamp'', VInt t), (''pm2_5'', VInt 9)]"

text \<open>A pollutant fetch that answers with the record of the day, and raises for one day.\<close>

definition fetch_except :: "int \<Rightarrow> nat \<Rightarrow> int \<Rightarrow> pyerr + dict option" where
  "fetch_except bad i t = (if t = bad then Inl FetchError else Inr (Some (pollutant_day t)))"

section \<open>Properties of the AQI bands and alerts\<close>

text \<open>
  C2. \<open>categorize_aqi\<close> is a total function on the reals. Every value gets exactly one
  severity level from 1 to 6, the label is the one of that level, the levels are the bands
  \<open>\<le> 50\<close>, \<open>\<le> 100\<close>, \<open>\<le> 150\<close>, \<open>\<le> 200\<close>, \<open>\<le> 300\<close> and
  \<open>> 300\<close> with each boundary in the lower band (50 is Good, 50.01 is Moderate), and the
  hazard flag is true exactly when the level is at least 4.
\<close>

theorem categorize_aqi_bands:
  "level (categorize_aqi x) \<in> {1..6}
   \<and> category (categorize_aqi x) = band_labels ! (level (categorize_aqi x) - 1)
   \<and> (level (categorize_aqi x) = 1) = (x \<le> 50)
   \<and> (level (categorize_aqi x) = 2) = (50 < x \<and> x \<le> 100)
   \<and> (level (categorize_aqi x) = 3) = (100 < x \<and> x \<le> 150)
   \<and> (level (categorize_aqi x) = 4) = (150 < x \<and> x \<le> 200)
   \<and> (level (categorize_aqi x) = 5) = (200 < x \<and> x \<le> 300)
   \<and> (level (categorize_aqi x) = 6) = (300 < x)
   \<and> is_hazardous (categorize_aqi x) = (4 \<le> level (categorize_aqi x))
   \<and> category (categorize_aqi 50) = ''Good''
   \<and> category (categorize_aqi 50.01) = ''Moderate''"
  by (simp add: categorize_aqi_def band_labels_def)

theorem categorize_aqi_bands_witness:
  "level (categorize_aqi 175) = 4 \<and> category (categorize_aqi 175) = ''Unhealthy''
   \<and> is_hazardous (categorize_aqi 175)"
  using categorize_aqi_bands [of 175] by (simp add: band_labels_def)

text \<open>
  C1, as stated, equates the hazard flag with \<open>aqi_value > 200\<close>. The code sets the flag
  from level 4 on, that is above 150: at 175 an alert is generated although 175 is not
  above 200.
\<close>

theorem generate_aqi_alert_175_counterexample:
  "generate_aqi_alert 175 = Some ([CHR 0xF0, CHR 0x9F, CHR 0x9A, CHR 0xA8] @
     '' ALERT: Air quality is Unhealthy (AQI: 175). Some members of the general public may experience health effects.'')
   \<and> \<not> (200 < (175::real))"
  by (simp add: generate_aqi_alert_def categorize_aqi_def format_0f_def round_half_even_def
      digit_char_def Let_def)

text \<open>
  C1, amended. For every real value, \<open>generate_aqi_alert\<close> returns a non-empty alert
  exactly when the hazard flag of \<open>categorize_aqi\<close> is true, and nothing otherwise; the
  flag is true exactly when the value is above 150. At 150 there is no alert, and at 250
  the alert contains the words Very Unhealthy.
\<close>

theorem generate_aqi_alert_iff_hazardous:
  "(\<exists>s. generate_aqi_alert x = Some s \<and> s \<noteq> []) = is_hazardous (categorize_aqi x)
   \<and> (generate_aqi_alert x = None) = (\<not> is_hazardous (categorize_aqi x))
   \<and> is_hazardous (categorize_aqi x) = (150 < x)
   \<and> generate_aqi_alert 150 = None
   \<and> (\<exists>s. generate_aqi_alert 250 = Some s \<and> sublist ''Very Unhealthy'' s)"
proof -
  have a: "(\<exists>s. generate_aqi_alert x = Some s \<and> s \<noteq> []) = is_hazardous (categorize_aqi x)"
    by (simp add: generate_aqi_alert_def Let_def)
  have b: "(generate_aqi_alert x = None) = (\<not> is_hazardous (categorize_aqi x))"
    by (simp add: generate_aqi_alert_def Let_def)
  have c: "is_hazardous (categorize_aqi x) = (150 < x)"
    by (simp add: categorize_aqi_def)
  have d: "generate_aqi_alert 150 = None"
    by (simp add: generate_aqi_alert_def categorize_aqi_def)
  have e: "\<exists>s. generate_aqi_alert 250 = Some s \<and> sublist ''Very Unhealthy'' s"
  proof -
    have "generate_aqi_alert 250 =
      Some (([CHR 0xF0, CHR 0x9F, CHR 0x9A, CHR 0xA8] @ '' ALERT: Air quality is '') @
        ''Very Unhealthy'' @ ('' (AQI: '' @ format_0f 250 @ ''). '' @
        ''Health alert: The risk of health effects is increased for everyone.''))"
      by (simp add: generate_aqi_alert_def categorize_aqi_def)
    then show ?thesis using sublist_appendI by blast
  qed
  from a b c d e show ?thesis by blast
qed

theorem generate_aqi_alert_iff_hazardous_witness:
  "generate_aqi_alert 150.5 \<noteq> None \<and> is_hazardous (categorize_aqi 150.5)"
  using generate_aqi_alert_iff_hazardous [of "150.5"] by simp

section \<open>Properties of the record cleaners\<close>

subsection \<open>Looking a key up in a cleaned record\<close>


lemma map_of_nan_fold:
  "map_of (fold (\<lambda>(k, v) acc. if is_nan v then AList.update k VNone acc else acc) xs acc) k =
     (if \<exists>v. (k, v) \<in> set xs \<and> is_nan v then Some VNone else map_of acc k)"
proof (induction xs arbitrary: acc)
  case Nil
  show ?case by simp
next
  case (Cons x xs)
  obtain k' v' where x: "x = (k', v')" by (cases x)
  show ?case
    unfolding x by (auto simp: Cons.IH update_conv')
qed

lemma map_of_nan_to_none:
  assumes "wf_dict d"
  shows "map_of (nan_to_none d) k = map_option (\<lambda>v. if is_nan v then VNone else v) (map_of d k)"
proof (cases "map_of d k")
  case None
  then have "\<And>v. (k, v) \<notin> set d" by (force simp: map_of_eq_None_iff)
  with None show ?thesis by (simp add: nan_to_none_def map_of_nan_fold)
next
  case (Some w)
  have "\<And>v. (k, v) \<in> set d \<longleftrightarrow> v = w"
    using assms Some unfolding wf_dict_def by (metis map_of_is_SomeI map_of_SomeD option.inject)
  with Some show ?thesis by (simp add: nan_to_none_def map_of_nan_fold)
qed

lemma keys_nan_fold:
  "fst ` set xs \<subseteq> fst ` set acc \<Longrightarrow>
   map fst (fold (\<lambda>(k, v) acc. if is_nan v then AList.update k VNone acc else acc) xs acc) = map fst acc"
proof (induction xs arbitrary: acc)
  case Nil
  show ?case by simp
next
  case (Cons x xs)
  obtain k' v' where x: "x = (k', v')" by (cases x)
  from Cons.prems have in_acc: "k' \<in> fst ` set acc" and rest: "fst ` set xs \<subseteq> fst ` set acc"
    by (auto simp: x)
  have keys: "map fst (AList.update k' VNone acc) = map fst acc"
    using in_acc by (simp add: update_keys)
  show ?case
  proof (cases "is_nan v'")
    case True
    have "fst ` set xs \<subseteq> fst ` set (AList.update k' VNone acc)"
      using rest keys by (metis list.set_map)
    from Cons.IH [OF this] show ?thesis using True keys by (simp add: x)
  next
    case False
    from Cons.IH [OF rest] show ?thesis using False by (simp add: x)
  qed
qed

lemma keys_nan_to_none: "map fst (nan_to_none d) = map fst d"
  by (simp add: nan_to_none_def keys_nan_fold)

lemma wf_nan_to_none: "wf_dict d \<Longrightarrow> wf_dict (nan_to_none d)"
  by (simp add: wf_dict_def keys_nan_to_none)

lemma map_of_clamp_other:
  "k' \<noteq> k \<Longrightarrow> map_of (clamp_concentration lib k out) k' = map_of out k'"
  by (simp add: clamp_concentration_def Let_def update_conv' split: sum.splits)

lemma map_of_fold_clamp_other:
  "k' \<notin> set ks \<Longrightarrow> map_of (fold (clamp_concentration lib) ks out) k' = map_of out k'"
  by (induction ks arbitrary: out) (auto simp: map_of_clamp_other)



lemma aqi_not_concentration: "''aqi'' \<notin> set concentration_keys"
  by (simp add: concentration_keys_def)

lemma map_of_clean_pollutant_aqi:
  assumes "wf_dict rec"
  shows "map_of (clean_pollutant_record lib rec) ''aqi'' =
    (case map_of rec ''aqi'' of
       None \<Rightarrow> None
     | Some a \<Rightarrow>
        if a = VNone \<or> is_nan a then Some VNone
        else (case py_int lib a of
                Inr i \<Rightarrow> Some (if 1 \<le> i \<and> i \<le> 5 then VInt i else VNone)
              | Inl e \<Rightarrow> Some VNone))"
proof -
  let ?out = "fold (clamp_concentration lib) concentration_keys (nan_to_none rec)"
  have look: "map_of ?out ''aqi'' = map_option (\<lambda>v. if is_nan v then VNone else v) (map_of rec ''aqi'')"
    by (simp add: map_of_fold_clamp_other [OF aqi_not_concentration] map_of_nan_to_none [OF assms])
  show ?thesis
    unfolding clean_pollutant_record_def Let_def dict_get_def look
    by (cases "map_of rec ''aqi''") (auto simp: update_conv' look split: sum.splits)
qed





lemma clamp_nonneg_not_nan: "\<not> is_nan (py_max2 (VFloat (Fin 0)) (VFloat f))"
  by (cases f) (simp_all add: py_max2_def py_lt_def is_nan_def)






subsection \<open>The claims about the cleaners\<close>

text \<open>
  C3 says that every field holding a not-a-number float is missing after
  \<open>clean_weather_record\<close>, humidity and visibility included. The clamps run before the
  replacement loop and \<open>min\<close> and \<open>max\<close> keep their first argument when a comparison
  with not-a-number is false: a not-a-number humidity comes out as 100 and a not-a-number
  visibility as 0.0, while any other field becomes missing. The pollutant cleaner runs
  the replacement first.
\<close>

theorem clean_weather_nan_humidity:
  "clean_weather_record lib
     [(''humidity'', VFloat NaN), (''visibility'', VFloat NaN), (''temperature'', VFloat NaN)] =
     [(''humidity'', VInt 100), (''visibility'', VFloat (Fin 0)), (''temperature'', VNone)]"
  by (simp add: clean_weather_record_def dict_get_def py_max2_def py_min2_def py_lt_def
      nan_to_none_def is_nan_def)

text \<open>
  C4, as stated, makes every value that is not an integer in [1,5] missing. The code
  converts with \<open>int\<close> first, which truncates: 4.7 is stored as 4.
\<close>

theorem clean_pollutant_aqi_counterexample:
  "map_of (clean_pollutant_record no_parse [(''aqi'', VFloat (Fin 4.7))]) ''aqi'' = Some (VInt 4)
   \<and> VInt 4 \<noteq> VNone \<and> VInt 4 \<noteq> VFloat (Fin 4.7)"
proof -
  have "wf_dict [(''aqi'', VFloat (Fin 4.7))]" by (simp add: wf_dict_def)
  from map_of_clean_pollutant_aqi [OF this, of no_parse] show ?thesis
    by (simp add: is_nan_def)
qed

text \<open>
  C4, amended. For a well-formed record with a present aqi field that is not
  not-a-number, the cleaned field is \<open>int(aqi)\<close> when the conversion succeeds with a
  result in [1,5] and missing otherwise. So an integer is kept exactly when it is in
  [1,5], and a finite float \<open>r\<close> becomes its integer part when \<open>1 \<le> r < 6\<close> and missing
  otherwise.
\<close>

theorem clean_pollutant_aqi_truncates:
  assumes "wf_dict rec" and "map_of rec ''aqi'' = Some a" and "a \<noteq> VNone" and "\<not> is_nan a"
  shows "map_of (clean_pollutant_record lib rec) ''aqi'' =
           Some (case py_int lib a of
                   Inr i \<Rightarrow> if 1 \<le> i \<and> i \<le> 5 then VInt i else VNone
                 | Inl e \<Rightarrow> VNone)
         \<and> (\<forall>n. a = VInt n \<longrightarrow>
              map_of (clean_pollutant_record lib rec) ''aqi'' =
                Some (if 1 \<le> n \<and> n \<le> 5 then VInt n else VNone))
         \<and> (\<forall>r. a = VFloat (Fin r) \<longrightarrow>
              map_of (clean_pollutant_record lib rec) ''aqi'' =
                Some (if 1 \<le> r \<and> r < 6 then VInt \<lfloor>r\<rfloor> else VNone))"
proof -
  have main: "map_of (clean_pollutant_record lib rec) ''aqi'' =
           Some (case py_int lib a of
                   Inr i \<Rightarrow> if 1 \<le> i \<and> i \<le> 5 then VInt i else VNone
                 | Inl e \<Rightarrow> VNone)"
    using assms(2-4) by (simp add: map_of_clean_pollutant_aqi [OF assms(1)] split: sum.splits)
  have flt: "map_of (clean_pollutant_record lib rec) ''aqi'' =
                Some (if 1 \<le> r \<and> r < 6 then VInt \<lfloor>r\<rfloor> else VNone)" if "a = VFloat (Fin r)" for r
  proof -
    have "\<lceil>r\<rceil> \<le> 0" if "r < 0" using that by (simp add: ceiling_le_iff)
    moreover have "(1 \<le> \<lfloor>r\<rfloor> \<and> \<lfloor>r\<rfloor> \<le> 5) = (1 \<le> r \<and> r < 6)"
      by (simp add: le_floor_iff floor_le_iff)
    ultimately show ?thesis unfolding main that by auto
  qed
  show ?thesis using main flt by simp
qed

theorem clean_pollutant_aqi_truncates_witness:
  "map_of (clean_pollutant_record no_parse [(''aqi'', VFloat (Fin 5.5)), (''co'', VInt 1)]) ''aqi'' = Some (VInt 5)"
proof -
  have "wf_dict [(''aqi'', VFloat (Fin 5.5)), (''co'', VInt 1)]" by (simp add: wf_dict_def)
  from clean_pollutant_aqi_truncates [OF this, of "VFloat (Fin 5.5)" no_parse]
  show ?thesis by (simp add: is_nan_def)
qed



section \<open>Properties of the backfill orchestrator\<close>

subsection \<open>Sorting and dropping duplicates\<close>

lemma keys_drop_duplicates_last: "key ` set (drop_duplicates_last key xs) = key ` set xs"
  by (induction xs) auto

lemma set_drop_duplicates_last: "set (drop_duplicates_last key xs) \<subseteq> set xs"
  by (induction xs) auto

lemma distinct_drop_duplicates_last: "distinct (map key (drop_duplicates_last key xs))"
proof (induction xs)
  case Nil
  show ?case by simp
next
  case (Cons x xs)
  have "key x \<notin> key ` set (drop_duplicates_last key xs)" if "key x \<notin> key ` set xs"
    using that by (simp add: keys_drop_duplicates_last)
  with Cons show ?case by auto
qed

lemma sorted_drop_duplicates_last:
  "sorted (map key xs) \<Longrightarrow> sorted (map key (drop_duplicates_last key xs))"
proof (induction xs)
  case Nil
  show ?case by simp
next
  case (Cons x xs)
  then have le: "\<forall>y\<in>set xs. key x \<le> key y" and rest: "sorted (map key xs)"
    by auto
  have "\<forall>y\<in>set (drop_duplicates_last key xs). key x \<le> key y"
    using le set_drop_duplicates_last [of key xs] by blast
  with Cons.IH [OF rest] show ?case by auto
qed

lemma drop_duplicates_last_id:
  "distinct (map key xs) \<Longrightarrow> drop_duplicates_last key xs = xs"
  by (induction xs) auto

lemma sort_fixes_sorted_distinct:
  assumes "sorts_by_timestamp srt"
    and "sorted (map ts_key ys)" and "distinct (map ts_key ys)"
  shows "srt ys = ys"
proof -
  from assms(1) have s: "sorted (map ts_key (srt ys))" and m: "mset (srt ys) = mset ys"
    by (simp_all add: sorts_by_timestamp_def)
  from m have "mset (map ts_key (srt ys)) = mset (map ts_key ys)"
    by simp
  then have d: "distinct (map ts_key (srt ys))"
    using assms(3) by (metis mset_eq_imp_distinct_iff)
  from m have se: "set (srt ys) = set ys"
    by (rule mset_eq_setD)
  from assms(3) have "inj_on ts_key (set ys)"
    by (simp add: distinct_map)
  then have "inj_on ts_key (set (srt ys) \<union> set ys)"
    by (simp add: se)
  then show ?thesis
    using s d assms(2,3) se by (rule map_sorted_distinct_set_unique)
qed

text \<open>
  C9. The step that sorts the table by timestamp and drops duplicate timestamps keeping
  the last is idempotent: for every list of rows, and whatever sorting function the
  library uses (any function that returns the rows rearranged in ascending order of the
  timestamp), applying the step twice gives the same table as applying it once.
\<close>

theorem sort_dedup_idempotent:
  assumes "sorts_by_timestamp srt"
  shows "sort_dedup srt (sort_dedup srt rows) = sort_dedup srt rows"
proof (cases "has_column ''timestamp'' rows")
  case False
  then show ?thesis by (simp add: sort_dedup_def)
next
  case True
  define ys where "ys = drop_duplicates_last ts_key (srt rows)"
  have once: "sort_dedup srt rows = ys"
    using True by (simp add: sort_dedup_def ys_def)
  from assms have "sorted (map ts_key (srt rows))"
    by (simp add: sorts_by_timestamp_def)
  then have s: "sorted (map ts_key ys)"
    unfolding ys_def by (rule sorted_drop_duplicates_last)
  have d: "distinct (map ts_key ys)"
    unfolding ys_def by (rule distinct_drop_duplicates_last)
  have "srt ys = ys"
    using assms s d by (rule sort_fixes_sorted_distinct)
  moreover have "drop_duplicates_last ts_key ys = ys"
    using d by (rule drop_duplicates_last_id)
  ultimately have "sort_dedup srt ys = ys"
    by (simp add: sort_dedup_def)
  then show ?thesis by (simp add: once)
qed

lemma sorts_by_timestamp_sort_key: "sorts_by_timestamp (sort_key ts_key)"
  by (simp add: sorts_by_timestamp_def)

theorem sort_dedup_idempotent_witness:
  "sort_dedup (sort_key ts_key)
     (sort_dedup (sort_key ts_key)
        [[(''timestamp'', VInt 3), (''tag'', VStr ''a'')], [(''timestamp'', VInt 1)],
         [(''timestamp'', VInt 3), (''tag'', VStr ''c'')], [(''tag'', VStr ''d'')]]) =
   [[(''timestamp'', VInt 1)], [(''timestamp'', VInt 3), (''tag'', VStr ''c'')], [(''tag'', VStr ''d'')]]"
proof -
  have "sort_dedup (sort_key ts_key)
        [[(''timestamp'', VInt 3), (''tag'', VStr ''a'')], [(''timestamp'', VInt 1)],
         [(''timestamp'', VInt 3), (''tag'', VStr ''c'')], [(''tag'', VStr ''d'')]] =
     [[(''timestamp'', VInt 1)], [(''timestamp'', VInt 3), (''tag'', VStr ''c'')], [(''tag'', VStr ''d'')]]"
    by (simp add: sort_dedup_def has_column_def ts_key_def)
  then show ?thesis
    using sort_dedup_idempotent [OF sorts_by_timestamp_sort_key,
      of "[[(''timestamp'', VInt 3), (''tag'', VStr ''a'')], [(''timestamp'', VInt 1)],
         [(''timestamp'', VInt 3), (''tag'', VStr ''c'')], [(''tag'', VStr ''d'')]]"]
    by simp
qed

subsection \<open>Matching pollutant records to weather timestamps\<close>








lemma dict_get_present: "dict_get d k \<noteq> VNone \<Longrightarrow> k \<in> fst ` set d"
  by (cases "map_of d k") (force simp: dict_get_def dest: map_of_SomeD)+

lemma keys_clamp_concentration: "map fst (clamp_concentration lib k out) = map fst out"
  using dict_get_present [of out k]
  by (auto simp: clamp_concentration_def Let_def update_keys split: sum.splits)

lemma keys_fold_clamp: "map fst (fold (clamp_concentration lib) ks out) = map fst out"
  by (induction ks arbitrary: out) (simp_all add: keys_clamp_concentration)

lemma keys_clean_pollutant_record: "map fst (clean_pollutant_record lib rec) = map fst rec"
proof -
  let ?out = "fold (clamp_concentration lib) concentration_keys (nan_to_none rec)"
  have k: "map fst ?out = map fst rec"
    by (simp add: keys_fold_clamp keys_nan_to_none)
  have "map fst (AList.update ''aqi'' v ?out) = map fst ?out" if "dict_get ?out ''aqi'' \<noteq> VNone" for v
    using dict_get_present [OF that] by (simp add: update_keys)
  then show ?thesis
    unfolding clean_pollutant_record_def Let_def using k by (auto split: sum.splits)
qed

lemma clean_pollutant_record_nonempty: "rec \<noteq> [] \<Longrightarrow> clean_pollutant_record lib rec \<noteq> []"
  using keys_clean_pollutant_record [of lib rec] by (metis map_is_Nil_conv)




subsection \<open>The fetches and the result of a run\<close>

lemma ts_of_eq: "rec_timestamp w = Inr t \<Longrightarrow> ts_of w = t"
  by (simp add: ts_of_def)

lemma fetch_pollutants_result:
  assumes "\<forall>w\<in>set ws. \<exists>t. rec_timestamp w = Inr t"
  shows "fetch_pollutants env i ws st =
    Inr (st\<lparr>pollutant_records :=
               pollutant_records st @ List.map_filter (\<lambda>r. r) (fetch_results env i (map ts_of ws)),
            success := success st + length (filter (\<lambda>r. r \<noteq> None) (fetch_results env i (map ts_of ws))),
            failed := failed st + length (filter (\<lambda>r. r = None) (fetch_results env i (map ts_of ws))),
            calls := calls st @ map ts_of ws\<rparr>)"
  using assms
proof (induction ws arbitrary: i st)
  case Nil
  show ?case by (simp add: fetch_results_def)
next
  case (Cons w ws)
  from Cons.prems obtain t where t: "rec_timestamp w = Inr t" by auto
  from Cons.prems have rest: "\<forall>w\<in>set ws. \<exists>t. rec_timestamp w = Inr t" by simp
  have fr: "fetch_results env i (map ts_of (w # ws)) =
      fetched_record env i t # fetch_results env (Suc i) (map ts_of ws)"
    by (simp add: fetch_results_def ts_of_eq [OF t])
  show ?case
  proof (cases "fetched_record env i t")
    case None
    show ?thesis
      unfolding fr by (simp add: t None Cons.IH [OF rest] ts_of_eq [OF t])
  next
    case (Some d)
    show ?thesis
      unfolding fr by (simp add: t Some Cons.IH [OF rest] ts_of_eq [OF t])
  qed
qed









lemma demo_env_sel:
  "parsers (demo_env w p) = no_parse"
  "fetch_openmeteo_bulk (demo_env w p) = w"
  "fetch_pollutant_historical (demo_env w p) = p"
  "compute_weather_features (demo_env w p) = (\<lambda>d. d)"
  "compute_pollutant_features (demo_env w p) = history_features"
  "sort_values (demo_env w p) = sort_key ts_key"
  "to_csv (demo_env w p) = (\<lambda>table. Inr ())"
  by (simp_all add: demo_env_def)

lemma rec_timestamp_weather_day: "rec_timestamp (weather_day t x) = Inr t"
  by (simp add: rec_timestamp_def weather_day_def)

lemma rec_timestamp_pollutant_day: "rec_timestamp (pollutant_day t) = Inr t"
  by (simp add: rec_timestamp_def pollutant_day_def)

lemma fetched_record_fetch_except:
  "fetched_record (demo_env w (fetch_except bad)) i t = (if t = bad \<or> t = 0 then None else Some (pollutant_day t))"
  by (simp add: fetched_record_def demo_env_sel fetch_except_def pollutant_day_def dict_get_def)


subsection \<open>The history given to the pollutant features\<close>

lemma pollutant_call_matched:
  assumes "map_of pbt ts = Some p" and "p \<noteq> []"
  shows "pollutant_call env prs pbt i ts =
    Some (clean_pollutant_record (parsers env) p, if 0 < i then py_slice prs (i - 10) i else [])"
  using assms clean_pollutant_record_nonempty [OF assms(2), of "parsers env"]
  by (simp add: pollutant_call_def Let_def)

lemma pollutant_call_unmatched:
  assumes "map_of pbt ts = None"
  shows "pollutant_call env prs pbt i ts = None"
  using assms by (simp add: pollutant_call_def)

lemma clean_weather_day: "clean_weather_record lib (weather_day t x) = weather_day t x"
  by (simp add: clean_weather_record_def weather_day_def dict_get_def nan_to_none_def is_nan_def)

lemma merged_row_unmatched:
  assumes "map_of pbt ts = None"
  shows "merged_row (demo_env w f) prs pbt (i, ts, weather_day t x) = weather_day t x"
  by (simp add: merged_row_def pollutant_call_unmatched [OF assms] demo_env_sel clean_weather_day
      merge_features_def)

lemma merged_row_matched:
  assumes "map_of pbt ts = Some p" and "p \<noteq> []"
  shows "merged_row (demo_env w f) prs pbt (i, ts, weather_day t x) =
    merge_features (weather_day t x)
      (history_features (clean_pollutant_record no_parse p)
         (if 0 < i then py_slice prs (i - 10) i else []))"
  by (simp add: merged_row_def pollutant_call_matched [OF assms] demo_env_sel clean_weather_day)

text \<open>
  C7 says that the history given to the pollutant features of a row is the (up to) ten
  pollutant records before the row's own. The code cuts the slice at the index of the
  row among the weather timestamps, \<open>pollutant_records[max(0, i - 10):i]\<close>, while
  \<open>pollutant_records\<close> holds only the records of the fetches that succeeded. After a
  failed fetch the two indices differ: with three days and the first fetch failing, the
  row of the second day gets its own record as history (one record, the last of
  timestamp 200) and the row of the third day gets its own record and the one before,
  where the claim gives no record and one record.
\<close>

theorem history_after_failed_fetch:
  "run_combined_backfill
     (demo_env (Inr [weather_day 100 20, weather_day 200 21, weather_day 300 22]) (fetch_except 100)) =
   Inr \<lparr>df =
          [[(''timestamp'', VInt 100), (''temp'', VInt 20)],
           [(''timestamp'', VInt 200), (''temp'', VInt 21),
            (''pollutant_history_len'', VInt 1), (''pollutant_history_last_ts'', VInt 200)],
           [(''timestamp'', VInt 300), (''temp'', VInt 22),
            (''pollutant_history_len'', VInt 2), (''pollutant_history_last_ts'', VInt 300)]],
        csv = Some
          [[(''timestamp'', VInt 100), (''temp'', VInt 20)],
           [(''timestamp'', VInt 200), (''temp'', VInt 21),
            (''pollutant_history_len'', VInt 1), (''pollutant_history_last_ts'', VInt 200)],
           [(''timestamp'', VInt 300), (''temp'', VInt 22),
            (''pollutant_history_len'', VInt 2), (''pollutant_history_last_ts'', VInt 300)]],
        fetches = [100, 200, 300],
        tally = Some (2, 1)\<rparr>"
proof -
  let ?ws = "[weather_day 100 20, weather_day 200 21, weather_day 300 22]"
  let ?env = "demo_env (Inr ?ws) (fetch_except 100)"
  let ?prs = "[pollutant_day 200, pollutant_day 300]"
  let ?pbt = "[(200, pollutant_day 200), (300, pollutant_day 300)]"
  have fw: "fetch_openmeteo_bulk ?env = Inr ?ws"
    by (simp add: demo_env_sel)
  have wts: "\<forall>w\<in>set ?ws. \<exists>t. rec_timestamp w = Inr t"
    by (simp add: rec_timestamp_weather_day)
  have wi: "weather_index ?ws [] = Inr [(100, weather_day 100 20), (200, weather_day 200 21), (300, weather_day 300 22)]"
    by (simp add: rec_timestamp_weather_day)
  have ts: "map ts_of ?ws = [100, 200, 300]"
    by (simp add: ts_of_def rec_timestamp_weather_day)
  have rs: "fetch_results ?env 1 [100, 200, 300] = [None, Some (pollutant_day 200), Some (pollutant_day 300)]"
    by (simp add: fetch_results_def fetched_record_fetch_except enumerate_simps)
  have fp: "fetch_pollutants ?env 1 ?ws \<lparr>pollutant_records = [], success = 0, failed = 0, calls = []\<rparr> =
      Inr \<lparr>pollutant_records = ?prs, success = 2, failed = 1, calls = [100, 200, 300]\<rparr>"
    unfolding fetch_pollutants_result [OF wts] ts rs by simp
  have mp: "match_pollutants [100, 200, 300] ?prs [] = Inr ?pbt"
    by (simp add: rec_timestamp_pollutant_day closest_ts_def)
  have items: "enumerate 0 (sort_key fst [(100 :: int, weather_day 100 20), (200, weather_day 200 21), (300, weather_day 300 22)]) =
      [(0, 100, weather_day 100 20), (1, 200, weather_day 200 21), (2, 300, weather_day 300 22)]"
    by (simp add: enumerate_simps)
  have ne: "pollutant_day t \<noteq> []" for t
    by (simp add: pollutant_day_def)
  have r0: "merged_row ?env ?prs ?pbt (0, 100, weather_day 100 20) = [(''timestamp'', VInt 100), (''temp'', VInt 20)]"
    by (subst merged_row_unmatched) (simp_all add: weather_day_def)
  have r1: "merged_row ?env ?prs ?pbt (1, 200, weather_day 200 21) =
      [(''timestamp'', VInt 200), (''temp'', VInt 21),
       (''pollutant_history_len'', VInt 1), (''pollutant_history_last_ts'', VInt 200)]"
    by (subst merged_row_matched [where p = "pollutant_day 200"])
       (simp_all add: ne py_slice_def weather_day_def pollutant_day_def dict_get_def
          merge_features_def history_features_def)
  have r2: "merged_row ?env ?prs ?pbt (2, 300, weather_day 300 22) =
      [(''timestamp'', VInt 300), (''temp'', VInt 22),
       (''pollutant_history_len'', VInt 2), (''pollutant_history_last_ts'', VInt 300)]"
    by (subst merged_row_matched [where p = "pollutant_day 300"])
       (simp_all add: ne py_slice_def weather_day_def pollutant_day_def dict_get_def
          merge_features_def history_features_def)
  have sd: "sort_dedup (sort_key ts_key)
      [[(''timestamp'', VInt 100), (''temp'', VInt 20)],
       [(''timestamp'', VInt 200), (''temp'', VInt 21),
        (''pollutant_history_len'', VInt 1), (''pollutant_history_last_ts'', VInt 200)],
       [(''timestamp'', VInt 300), (''temp'', VInt 22),
        (''pollutant_history_len'', VInt 2), (''pollutant_history_last_ts'', VInt 300)]] =
      [[(''timestamp'', VInt 100), (''temp'', VInt 20)],
       [(''timestamp'', VInt 200), (''temp'', VInt 21),
        (''pollutant_history_len'', VInt 1), (''pollutant_history_last_ts'', VInt 200)],
       [(''timestamp'', VInt 300), (''temp'', VInt 22),
        (''pollutant_history_len'', VInt 2), (''pollutant_history_last_ts'', VInt 300)]]"
    by (simp add: sort_dedup_def has_column_def ts_key_def)
  show ?thesis
    unfolding run_combined_backfill_def
    by (simp only: fw wi fp mp items r0 r1 r2 sd demo_env_sel Let_def sum.case
        fetch_state.select_convs list.map fst_conv)
qed

subsection \<open>The rows of the table\<close>













end
